theory Spec2Isabelle
  imports Main "HOL-Library.Sublist" "HOL-Library.Char_ord" "HOL-Library.List_Lexorder"
begin

section \<open>The prelude: runtime support of every generated program\<close>

text \<open>
  Go strings are byte sequences, modelled as \<open>string\<close> (a list of 8-bit \<open>char\<close>):
  \<open>len(s)\<close> is \<open>length s\<close>, \<open>s[0]\<close> is \<open>hd s\<close> and panics on the empty string,
  \<open>s[1:]\<close> is \<open>tl s\<close>. Go's \<open>int\<close> is modelled as \<open>int\<close> where the source cannot
  overflow (in \<open>Field\<close>: \<open>len(Fields) + n\<close> with \<open>n < 0\<close> and \<open>n - 1\<close> with \<open>n > 0\<close>).
\<close>

subsection \<open>Global variables and diagnostics\<close>

text \<open>
  The package-level variables of prelude.go that the functions below read.
\<close>

record prelude =
  Fields :: "string list"
  OFS :: string
  Warnings :: bool

text \<open>
  What \<open>Warn\<close> and \<open>Die\<close> print is kept as a value: the format string of the call site
  with its arguments, not the formatted text.
\<close>

datatype atoi_err = ErrSyntax | ErrRange

datatype diag =
  UndefinedField int "string list"
| AtoiError atoi_err string
| InvalidRegexp string

text \<open>
  A prelude function either returns a value, having printed some warnings to stderr, or
  calls \<open>Die\<close>: the diagnostic is printed and the process exits with status 1.
\<close>

datatype 'a outcome =
  Return 'a "diag list"
| Fatal diag

subsection \<open>strings.Join, strings.Contains, strings.ReplaceAll\<close>

fun strings_Join :: "string list \<Rightarrow> string \<Rightarrow> string" where
  "strings_Join [] sep = []"
| "strings_Join [x] sep = x"
| "strings_Join (x # y # ys) sep = x @ sep @ strings_Join (y # ys) sep"

fun strings_Contains :: "string \<Rightarrow> string \<Rightarrow> bool" where
  "strings_Contains [] substr = (substr = [])"
| "strings_Contains (c # cs) substr = (prefix substr (c # cs) \<or> strings_Contains cs substr)"

text \<open>
  \<open>strings.ReplaceAll(s, old, new)\<close> replaces the non-overlapping occurrences of \<open>old\<close>
  from the left. For an empty \<open>old\<close> Go inserts \<open>new\<close> before every UTF-8 sequence and at
  the end; the model does so before every byte, which is the same on ASCII text. The
  prelude only calls it with \<open>old = "*"\<close>.
\<close>

function strings_ReplaceAll :: "string \<Rightarrow> string \<Rightarrow> string \<Rightarrow> string" where
  "strings_ReplaceAll s old new =
     (if old = [] then concat (map (\<lambda>c. new @ [c]) s) @ new
      else if s = [] then []
      else if prefix old s then new @ strings_ReplaceAll (drop (length old) s) old new
      else hd s # strings_ReplaceAll (tl s) old new)"
  by pat_completeness auto
termination
  by (relation "measure (\<lambda>(s, old, new). length s)") auto

declare strings_ReplaceAll.simps [simp del]

subsection \<open>Field\<close>

text \<open>
  \<^verbatim>\<open>
  func Field(n int) string {
      switch {
      case n == 0:
          return strings.Join(Fields, OFS)
      case n < 0:
          n = len(Fields) + n
      case n > 0:
          n--
      }
      if n < 0 || n > len(Fields)-1 {
          if Warnings {
              Warn("undefined field: %d: %v", n, Fields)
          }
          return ""
      }
      return Fields[n]
  }
  \<close>
  The name \<open>Field\<close> is taken by HOL's relations, hence the suffix.
\<close>

definition Field_idx :: "prelude \<Rightarrow> int \<Rightarrow> int" where
  "Field_idx g n = (if n < 0 then int (length (Fields g)) + n else n - 1)"

definition Field_acc :: "prelude \<Rightarrow> int \<Rightarrow> string outcome" where
  "Field_acc g n =
     (if n = 0 then Return (strings_Join (Fields g) (OFS g)) []
      else
        let n' = Field_idx g n in
        if n' < 0 \<or> n' > int (length (Fields g)) - 1
        then Return [] (if Warnings g then [UndefinedField n' (Fields g)] else [])
        else Return (Fields g ! nat n') [])"

subsection \<open>BackupName\<close>

text \<open>
  \<^verbatim>\<open>
  func BackupName(orig, ext string) string {
      if strings.Contains(ext, "*") {
          return strings.ReplaceAll(ext, "*", orig)
      }
      return orig + ext
  }
  \<close>
\<close>

definition BackupName :: "string \<Rightarrow> string \<Rightarrow> string" where
  "BackupName orig ext =
     (if strings_Contains ext ''*'' then strings_ReplaceAll ext ''*'' orig else orig @ ext)"

subsection \<open>GAtoi\<close>

text \<open>
  \<open>strconv.Atoi\<close> of the Go standard library, for a 64-bit \<open>int\<close>: an optional sign
  followed by one or more decimal digits. On a syntax error it returns 0 and \<open>ErrSyntax\<close>;
  when the digits are a number that does not fit, it returns the nearest bound of the type
  and \<open>ErrRange\<close>.
\<close>

definition is_digit :: "char \<Rightarrow> bool" where
  "is_digit c = (c \<in> set ''0123456789'')"

definition digits_value :: "string \<Rightarrow> nat" where
  "digits_value ds = foldl (\<lambda>a c. a * 10 + (of_char c - 48)) 0 ds"

definition Atoi :: "string \<Rightarrow> int \<times> atoi_err option" where
  "Atoi s =
     (let neg = (s \<noteq> [] \<and> hd s = CHR ''-'');
          ds = (if s \<noteq> [] \<and> (hd s = CHR ''-'' \<or> hd s = CHR ''+'') then tl s else s)
      in if ds = [] \<or> \<not> list_all is_digit ds then (0, Some ErrSyntax)
         else
           let un = digits_value ds in
           if \<not> neg \<and> un \<ge> 2 ^ 63 then (2 ^ 63 - 1, Some ErrRange)
           else if neg \<and> un > 2 ^ 63 then (- (2 ^ 63), Some ErrRange)
           else (if neg then - int un else int un, None))"

text \<open>
  \<^verbatim>\<open>
  func GAtoi(s string) int {
      i, err := strconv.Atoi(s)
      if err != nil && Warnings {
          Warn(err)
      }
      return i // defaults to 0 on parse fail
  }
  \<close>
\<close>

definition GAtoi :: "prelude \<Rightarrow> string \<Rightarrow> int outcome" where
  "GAtoi g s =
     (case Atoi s of
        (i, err) \<Rightarrow>
          Return i (case err of
                      Some e \<Rightarrow> if Warnings g then [AtoiError e s] else []
                    | None \<Rightarrow> []))"

subsection \<open>GSplit\<close>




text \<open>
  \<open>strings.Split(s, sep)\<close>: the pieces of \<open>s\<close> between the non-overlapping occurrences
  of \<open>sep\<close>, found from the left. With an empty \<open>sep\<close> Go cuts after every UTF-8
  sequence; the model cuts after every byte, which is the same on ASCII text.
\<close>

function split_from :: "string \<Rightarrow> string \<Rightarrow> string \<Rightarrow> string list" where
  "split_from sep cur s =
     (if s = [] \<or> sep = [] then [rev cur @ s]
      else if prefix sep s then rev cur # split_from sep [] (drop (length sep) s)
      else split_from sep (hd s # cur) (tl s))"
  by pat_completeness auto
termination
  by (relation "measure (\<lambda>(sep, cur, s). length s)") auto

declare split_from.simps [simp del]

definition strings_Split :: "string \<Rightarrow> string \<Rightarrow> string list" where
  "strings_Split s sep = (if sep = [] then map (\<lambda>c. [c]) s else split_from sep [] s)"



text \<open>
  The strings that \<open>strconv.Atoi\<close> reads as a decimal integer, whatever its size: an
  optional sign and at least one digit.
\<close>

definition decimal_syntax :: "string \<Rightarrow> bool" where
  "decimal_syntax s =
     (case s of
        [] \<Rightarrow> False
      | c # r \<Rightarrow>
          if c = CHR ''-'' \<or> c = CHR ''+'' then r \<noteq> [] \<and> list_all is_digit r
          else list_all is_digit s)"



text \<open>The fields \<open>a\<close>, \<open>b\<close>, \<open>c\<close> with the default output separator and warnings on.\<close>

definition abc :: prelude where
  "abc = \<lparr>Fields = [''a'', ''b'', ''c''], OFS = '' '', Warnings = True\<rparr>"

section \<open>The golf command: flag processing\<close>

text \<open>
  A step of the command either goes on with a value, ends the process with \<open>os.Exit\<close>
  and a status, or panics (a Go run-time error such as an index out of range).
\<close>

datatype 'a step =
  Ok 'a
| Exit int
| Panic

subsection \<open>The flags of the command line\<close>

text \<open>
  The flags that the \<open>var\<close> block and \<open>init\<close> of golf.go register with the \<open>flag\<close>
  package, each with whether its value is a boolean (\<open>IsBoolFlag\<close>). \<open>flag.Bool\<close> and
  \<open>flag.BoolVar\<close> make boolean flags; \<open>flag.String\<close> and the \<open>stringsValue\<close> of
  \<open>flag.Var\<close> take a value.
\<close>

datatype flag_kind = BoolFlag | ValueFlag

definition flag_table :: "(string \<times> flag_kind) list" where
  "flag_table =
     [(''e'', ValueFlag), (''n'', BoolFlag), (''l'', BoolFlag), (''p'', BoolFlag),
      (''g'', BoolFlag), (''a'', BoolFlag), (''F'', ValueFlag), (''i'', BoolFlag),
      (''I'', ValueFlag), (''k'', BoolFlag), (''w'', BoolFlag), (''goVer'', ValueFlag),
      (''help'', BoolFlag), (''h'', BoolFlag), (''M'', ValueFlag), (''b'', ValueFlag),
      (''BEGIN'', ValueFlag), (''E'', ValueFlag), (''END'', ValueFlag)]"

text \<open>
  \<^verbatim>\<open>
  flag.CommandLine.VisitAll(func(f *flag.Flag) {
      if len(f.Name) > 1 {
          longFlags[f.Name] = true
      } else {
          if fv, ok := f.Value.(interface{ IsBoolFlag() bool }); ok && fv.IsBoolFlag() {
              shortBoolFlags[f.Name] = true
          }
      }
  })
  \<close>
  Both are \<open>map[string]bool\<close>: a name that is not a key reads as \<open>false\<close>.
\<close>

definition longFlags :: "string \<Rightarrow> bool" where
  "longFlags name = (name \<in> set (map fst (filter (\<lambda>f. length (fst f) > 1) flag_table)))"

definition shortBoolFlags :: "string \<Rightarrow> bool" where
  "shortBoolFlags name =
     (name \<in> set (map fst
        (filter (\<lambda>f. \<not> length (fst f) > 1 \<and> snd f = BoolFlag) flag_table)))"

subsection \<open>decluster\<close>

text \<open>
  \<^verbatim>\<open>
  func decluster() {
      res := []string{os.Args[0]}
      for i, v := range os.Args[1:] {
          if v[0] != '-' || longFlags[v[1:]] {
              // Skip a non-flag arguments and known long flags.
              res = append(res, v)
              continue
          }
          if v == "--" {
              res = append(res, os.Args[i:]...)
              break
          }
          for i, vv := range strings.Split(v[1:], "") {
              if i < (len(v)-2) && !shortBoolFlags[vv] {
                  prelude.Warn("-%s cannot be used inside a flag cluster", vv)
                  flag.PrintDefaults()
                  os.Exit(1)
              }
              res = append(res, "-"+vv)
          }
      }
      os.Args = res
  }
  \<close>
  The inner loop, over the characters \<open>strings.Split(v[1:], "")\<close> of a cluster: \<open>lenv\<close>
  is \<open>len(v)\<close> and \<open>i\<close> the index of the character. The model takes every byte as
  a character. A cluster with a multi-byte character ends the same way in Go and in the
  model: \<open>len(v)\<close> counts bytes, so in Go every character of such a cluster is checked,
  in the model at least the first byte of the multi-byte character is, and neither is
  a boolean flag.
\<close>

fun decluster_chars :: "int \<Rightarrow> nat \<Rightarrow> string list \<Rightarrow> string list \<Rightarrow> string list step" where
  "decluster_chars lenv i res [] = Ok res"
| "decluster_chars lenv i res (vv # vvs) =
     (if int i < lenv - 2 \<and> \<not> shortBoolFlags vv then Exit 1
      else decluster_chars lenv (Suc i) (res @ [CHR ''-'' # vv]) vvs)"

text \<open>
  The outer loop: \<open>osArgs\<close> is the whole of \<open>os.Args\<close>, \<open>i\<close> the index of \<open>v\<close> in
  \<open>os.Args[1:]\<close> (so \<open>v\<close> is \<open>os.Args[i+1]\<close>), and \<open>os.Args[i:]\<close> is \<open>drop i osArgs\<close>.
  \<open>v[0]\<close> on an empty argument is an index out of range.
\<close>

fun decluster_loop :: "string list \<Rightarrow> nat \<Rightarrow> string list \<Rightarrow> string list \<Rightarrow> string list step" where
  "decluster_loop osArgs i res [] = Ok res"
| "decluster_loop osArgs i res (v # vs) =
     (if v = [] then Panic
      else if hd v \<noteq> CHR ''-'' \<or> longFlags (tl v) then
        decluster_loop osArgs (Suc i) (res @ [v]) vs
      else if v = ''--'' then Ok (res @ drop i osArgs)
      else
        (case decluster_chars (int (length v)) 0 res (strings_Split (tl v) []) of
           Ok res' \<Rightarrow> decluster_loop osArgs (Suc i) res' vs
         | Exit n \<Rightarrow> Exit n
         | Panic \<Rightarrow> Panic))"

definition decluster :: "string list \<Rightarrow> string list step" where
  "decluster osArgs =
     (if osArgs = [] then Panic else decluster_loop osArgs 0 [hd osArgs] (tl osArgs))"

subsection \<open>flag.Parse\<close>

text \<open>
  The variables the flags are bound to, and \<open>actual\<close>, the names of the flags that
  were set on the command line (what \<open>flag.Visit\<close> visits). The variable \<open>help\<close> is
  written \<open>help'\<close>.
\<close>

record flags =
  rawSrc :: string
  flgN :: bool
  flgL :: bool
  flgP :: bool
  flgG :: bool
  flgA :: bool
  flgF :: string
  inplace :: bool
  inplaceBak :: string
  flgKeep :: bool
  warnings :: bool
  goVer :: string
  help' :: bool
  modules :: "string list"
  beginSrc :: "string list"
  endSrc :: "string list"
  actual :: "string set"

text \<open>The default values given at the declaration of each flag.\<close>

definition flags0 :: flags where
  "flags0 =
     \<lparr>rawSrc = [], flgN = False, flgL = False, flgP = False, flgG = False, flgA = False,
      flgF = '' '', inplace = False, inplaceBak = [], flgKeep = False, warnings = False,
      goVer = ''1.17'', help' = False, modules = [], beginSrc = [], endSrc = [],
      actual = {}\<rparr>"

text \<open>
  \<open>strconv.ParseBool\<close>, which a boolean flag's \<open>Set\<close> calls on its value.
\<close>

definition ParseBool :: "string \<Rightarrow> bool option" where
  "ParseBool s =
     (if s \<in> set [''1'', ''t'', ''T'', ''TRUE'', ''true'', ''True''] then Some True
      else if s \<in> set [''0'', ''f'', ''F'', ''FALSE'', ''false'', ''False''] then Some False
      else None)"

text \<open>
  \<open>flag.Value.Set\<close> of the flag \<open>name\<close>: \<open>None\<close> when \<open>Set\<close> returns an error. The
  \<open>stringsValue\<close> flags append (\<open>*v = append(*v, s)\<close>), and the two spellings of one
  flag write the same variable.
\<close>

definition flag_Set :: "string \<Rightarrow> string \<Rightarrow> flags \<Rightarrow> flags option" where
  "flag_Set name v st =
     (if name = ''e'' then Some (st\<lparr>rawSrc := v\<rparr>)
      else if name = ''n'' then map_option (\<lambda>b. st\<lparr>flgN := b\<rparr>) (ParseBool v)
      else if name = ''l'' then map_option (\<lambda>b. st\<lparr>flgL := b\<rparr>) (ParseBool v)
      else if name = ''p'' then map_option (\<lambda>b. st\<lparr>flgP := b\<rparr>) (ParseBool v)
      else if name = ''g'' then map_option (\<lambda>b. st\<lparr>flgG := b\<rparr>) (ParseBool v)
      else if name = ''a'' then map_option (\<lambda>b. st\<lparr>flgA := b\<rparr>) (ParseBool v)
      else if name = ''F'' then Some (st\<lparr>flgF := v\<rparr>)
      else if name = ''i'' then map_option (\<lambda>b. st\<lparr>inplace := b\<rparr>) (ParseBool v)
      else if name = ''I'' then Some (st\<lparr>inplaceBak := v\<rparr>)
      else if name = ''k'' then map_option (\<lambda>b. st\<lparr>flgKeep := b\<rparr>) (ParseBool v)
      else if name = ''w'' then map_option (\<lambda>b. st\<lparr>warnings := b\<rparr>) (ParseBool v)
      else if name = ''goVer'' then Some (st\<lparr>goVer := v\<rparr>)
      else if name = ''help'' \<or> name = ''h'' then
        map_option (\<lambda>b. st\<lparr>help' := b\<rparr>) (ParseBool v)
      else if name = ''M'' then Some (st\<lparr>modules := modules st @ [v]\<rparr>)
      else if name = ''b'' \<or> name = ''BEGIN'' then Some (st\<lparr>beginSrc := beginSrc st @ [v]\<rparr>)
      else if name = ''E'' \<or> name = ''END'' then Some (st\<lparr>endSrc := endSrc st @ [v]\<rparr>)
      else None)"

text \<open>
  \<open>parseOne\<close> of Go's \<open>flag\<close> package reads one flag from the front of the arguments:
  it stops without error at the first argument that is not a flag (shorter than two
  bytes or not starting with \<open>-\<close>) and at \<open>--\<close>, which it consumes. A flag is \<open>-name\<close>
  or \<open>--name\<close>, with \<open>=value\<close> after it or, for a flag that is not boolean, the value in
  the next argument. An undefined flag, a missing value and a value that \<open>Set\<close> rejects
  are errors.
\<close>

datatype parsed_one =
  Seen flags "string list"
| Stop "string list"
| Failed

definition split_value :: "string \<Rightarrow> string \<times> string option" where
  "split_value name =
     (if CHR ''='' \<in> set (tl name)
      then (hd name # takeWhile (\<lambda>c. c \<noteq> CHR ''='') (tl name),
            Some (tl (dropWhile (\<lambda>c. c \<noteq> CHR ''='') (tl name))))
      else (name, None))"

definition set_flag :: "string \<Rightarrow> string \<Rightarrow> flags \<Rightarrow> string list \<Rightarrow> parsed_one" where
  "set_flag name v st rest =
     (case flag_Set name v st of
        None \<Rightarrow> Failed
      | Some st' \<Rightarrow> Seen (st'\<lparr>actual := insert name (actual st')\<rparr>) rest)"

definition parseOne :: "flags \<Rightarrow> string list \<Rightarrow> parsed_one" where
  "parseOne st args =
     (case args of
        [] \<Rightarrow> Stop []
      | s # rest \<Rightarrow>
          if length s < 2 \<or> hd s \<noteq> CHR ''-'' then Stop args
          else if s = ''--'' then Stop rest
          else
            let name0 = (if s ! 1 = CHR ''-'' then drop 2 s else drop 1 s) in
            if name0 = [] \<or> hd name0 = CHR ''-'' \<or> hd name0 = CHR ''='' then Failed
            else
              (case split_value name0 of
                 (name, value) \<Rightarrow>
                   (case map_of flag_table name of
                      None \<Rightarrow> Failed
                    | Some BoolFlag \<Rightarrow>
                        set_flag name (case value of None \<Rightarrow> ''true'' | Some v \<Rightarrow> v) st rest
                    | Some ValueFlag \<Rightarrow>
                        (case value of
                           Some v \<Rightarrow> set_flag name v st rest
                         | None \<Rightarrow>
                             (case rest of
                                [] \<Rightarrow> Failed
                              | v # rest' \<Rightarrow> set_flag name v st rest')))))"

text \<open>
  \<open>flag.Parse\<close> calls \<open>parseOne\<close> until it stops. The command line's flag set exits
  with status 2 on an error (\<open>flag.ExitOnError\<close>). The result is the flags and the
  remaining, positional arguments (\<open>flag.Args()\<close>).
\<close>

lemma parseOne_shorter:
  "parseOne st args = Seen st' rest \<Longrightarrow> length rest < length args"
  by (auto simp: parseOne_def set_flag_def Let_def
      split: list.splits if_splits prod.splits option.splits flag_kind.splits)

function Parse :: "flags \<Rightarrow> string list \<Rightarrow> (flags \<times> string list) step" where
  "Parse st args =
     (case parseOne st args of
        Seen st' rest \<Rightarrow> Parse st' rest
      | Stop rest \<Rightarrow> Ok (st, rest)
      | Failed \<Rightarrow> Exit 2)"
  by pat_completeness auto
termination
  by (relation "measure (\<lambda>(st, args). length args)") (auto dest: parseOne_shorter)

declare Parse.simps [simp del]

subsection \<open>main, up to the program record\<close>

text \<open>
  \<^verbatim>\<open>
  func dedupe(s []string) []string {
      sort.Strings(s)
      w := 0
      for r, cur := range s {
          if r > 0 && cur == s[r-1] {
              continue
          }
          s[w] = cur
          w++
      }
      return s[:w]
  }
  \<close>
  Go compares strings byte by byte, which is the lexicographic order on \<open>string\<close>. The
  loop keeps an element of the sorted slice when it differs from the one before it.
\<close>

fun dedupe_loop :: "string option \<Rightarrow> string list \<Rightarrow> string list" where
  "dedupe_loop prev [] = []"
| "dedupe_loop prev (cur # s) =
     (if prev = Some cur then dedupe_loop (Some cur) s else cur # dedupe_loop (Some cur) s)"

definition dedupe :: "string list \<Rightarrow> string list" where
  "dedupe s = dedupe_loop None (sort s)"

text \<open>
  The record \<open>Prog\<close> that \<open>main\<close> hands to the synthesizer. Its fields \<open>Src\<close> (filled
  in later by \<open>transform\<close>) and \<open>Prelude\<close> (the embedded prelude source) are program
  text that no flag decides; they are left out.
\<close>

record Prog =
  RawArgs :: "string list"
  BeginSrc :: "string list"
  RawSrc :: string
  EndSrc :: "string list"
  Imports :: "string list"
  FlgN :: bool
  FlgP :: bool
  FlgL :: bool
  FlgA :: bool
  FlgF :: string
  InPlace :: bool
  InPlaceBak :: string
  Warn_on :: bool
  Goimports :: bool
  Keep :: bool

text \<open>
  The field \<open>Warnings\<close> of \<open>Prog\<close> is written \<open>Warn_on\<close>, apart from the prelude's
  variable \<open>Warnings\<close>.

  \<^verbatim>\<open>
  decluster()
  flag.Parse()
  if *help { ...; os.Exit(0) }
  // -F implies -a (which in turn implies -n...)
  flag.Visit(func(f *flag.Flag) {
      if f.Name == "F" {
          *flgA = true
      }
  })
  // Both -a and -n imply -n.
  *flgN = *flgN || *flgP || *flgA
  // -I implies -i.
  *inplace = *inplace || len(*inplaceBak) > 0
  imps := []string{"io", "os", "regexp", "strconv", "strings", "fmt"}
  if *flgN {
      imps = append(imps, "bufio")
  }
  if len(modules) > 0 {
      imps = append(imps, modules...)
  }
  imps = dedupe(imps)
  p := &Prog{...}
  \<close>
\<close>

definition golf_flags :: "string list \<Rightarrow> (flags \<times> string list) step" where
  "golf_flags osArgs =
     (case decluster osArgs of
        Ok args \<Rightarrow> Parse flags0 (tl args)
      | Exit n \<Rightarrow> Exit n
      | Panic \<Rightarrow> Panic)"

definition implications :: "flags \<Rightarrow> flags" where
  "implications st =
     (let st1 = (if ''F'' \<in> actual st then st\<lparr>flgA := True\<rparr> else st);
          st2 = st1\<lparr>flgN := flgN st1 \<or> flgP st1 \<or> flgA st1\<rparr>
      in st2\<lparr>inplace := inplace st2 \<or> length (inplaceBak st2) > 0\<rparr>)"

definition make_Prog :: "flags \<Rightarrow> string list \<Rightarrow> Prog" where
  "make_Prog st args =
     \<lparr>RawArgs = args, BeginSrc = beginSrc st, RawSrc = rawSrc st, EndSrc = endSrc st,
      Imports =
        dedupe ([''io'', ''os'', ''regexp'', ''strconv'', ''strings'', ''fmt'']
                @ (if flgN st then [''bufio''] else []) @ modules st),
      FlgN = flgN st, FlgP = flgP st, FlgL = flgL st, FlgA = flgA st, FlgF = flgF st,
      InPlace = inplace st, InPlaceBak = inplaceBak st, Warn_on = warnings st,
      Goimports = flgG st, Keep = flgKeep st\<rparr>"

definition main_Prog :: "string list \<Rightarrow> Prog step" where
  "main_Prog osArgs =
     (case golf_flags osArgs of
        Ok (st, args) \<Rightarrow>
          if help' st then Exit 0 else Ok (make_Prog (implications st) args)
      | Exit n \<Rightarrow> Exit n
      | Panic \<Rightarrow> Panic)"

section \<open>The generated program: opening an input file\<close>

text \<open>
  The part of the line-mode scaffold (the template \<open>program\<close> of golf.go) that runs at
  the start of every iteration of the \<open>File\<close> loop, after the pending line is flushed
  and the previous output closed:
  \<^verbatim>\<open>
        _golfFile, err := os.Open(Filename)
        if err != nil {
            Die(err)
        }
        if GolfInPlace {
            if GolfInPlaceBak == "" {
                if err := os.Remove(Filename); err !=nil {
                    Die("golf: can't remove input file: %v", err)
                }
            } else {
                bakname := BackupName(Filename, GolfInPlaceBak)
                if os.Rename(Filename, bakname); err != nil {
                    Die("golf: in-place backup: %v", err)
                }
            }

            if CurOut, err = os.Create(Filename); err != nil {
                Die("golf: can't create output: %v", err)
            }
        }
  \<close>
  The file system is outside the program: the errors its calls return at this file are
  given (\<open>None\<close> is Go's \<open>nil\<close>). The model keeps the calls made, in order, and ends
  either in \<open>Died\<close> (\<open>Die\<close> printed the error and the process exited with status 1) or
  in \<open>Reading\<close> with the current output, where the scaffold goes on to scan the lines
  of the file.
\<close>

record os_errors =
  Open_err :: "string option"
  Remove_err :: "string option"
  Rename_err :: "string option"
  Create_err :: "string option"

datatype out = Stdout | OutFile string

record runtime =
  GolfInPlace :: bool
  GolfInPlaceBak :: string
  CurOut :: out

datatype syscall =
  SysOpen string
| SysRemove string
| SysRename string string
| SysCreate string

datatype boundary =
  Died "syscall list"
| Reading out "syscall list"

definition create_output :: "os_errors \<Rightarrow> string \<Rightarrow> syscall list \<Rightarrow> boundary" where
  "create_output os Filename calls =
     (if Create_err os \<noteq> None then Died (calls @ [SysCreate Filename])
      else Reading (OutFile Filename) (calls @ [SysCreate Filename]))"

text \<open>
  In the backup branch the statement \<open>os.Rename(Filename, bakname)\<close> is the \<open>if\<close>'s
  init statement and its result is not assigned: the condition \<open>err != nil\<close> reads the
  \<open>err\<close> of \<open>os.Open\<close>.
\<close>

definition open_input :: "os_errors \<Rightarrow> runtime \<Rightarrow> string \<Rightarrow> boundary" where
  "open_input os g Filename =
     (let err = Open_err os in
      if err \<noteq> None then Died [SysOpen Filename]
      else if GolfInPlace g then
        (if GolfInPlaceBak g = [] then
           (if Remove_err os \<noteq> None then Died [SysOpen Filename, SysRemove Filename]
            else create_output os Filename [SysOpen Filename, SysRemove Filename])
         else
           let bakname = BackupName Filename (GolfInPlaceBak g) in
           if err \<noteq> None then Died [SysOpen Filename, SysRename Filename bakname]
           else create_output os Filename [SysOpen Filename, SysRename Filename bakname])
      else Reading (CurOut g) [SysOpen Filename])"

section \<open>The golf command: building and running the program\<close>

text \<open>
  What an external command did: the error of \<open>cmd.Run()\<close> (or of
  \<open>cmd.CombinedOutput()\<close>), \<open>None\<close> for \<open>nil\<close>, and \<open>cmd.ProcessState.ExitCode()\<close>.
  Go's \<open>os/exec\<close> returns an \<open>*ExitError\<close> from \<open>Run\<close> when the command exits with a
  status other than 0; the model does not rely on it.
\<close>

record cmd_result =
  run_err :: "string option"
  exit_code :: int

datatype do_error = errGolf | RunError string

text \<open>
  \<^verbatim>\<open>
  func do(c string, args []string) error {
      cmd := exec.Command(c, args...)
      cmd.Stdin = os.Stdin
      cmd.Stdout = os.Stdout
      cmd.Stderr = os.Stderr
      if err := cmd.Run(); err != nil {
          return err
      }
      if cmd.ProcessState.ExitCode() != 0 {
          return errGolf
      }
      return nil
  }
  \<close>
  \<open>doQ\<close> is the same with \<open>cmd.CombinedOutput()\<close> and the output as the error.
\<close>

definition do_cmd :: "cmd_result \<Rightarrow> do_error option" where
  "do_cmd c =
     (case run_err c of
        Some e \<Rightarrow> Some (RunError e)
      | None \<Rightarrow> if exit_code c \<noteq> 0 then Some errGolf else None)"

definition doQ :: "cmd_result \<Rightarrow> do_error option" where
  "doQ c =
     (case run_err c of
        Some e \<Rightarrow> Some (RunError e)
      | None \<Rightarrow> if exit_code c \<noteq> 0 then Some (RunError []) else None)"

text \<open>
  The outcomes of the steps of \<open>Prog.run\<close>, in the order of the source: the calls of
  the \<open>os\<close> package (\<open>True\<close> when the call returns no error) and the external commands.
\<close>

record run_env =
  MkdirTemp_ok :: bool
  Abs_ok :: bool
  Getwd_ok :: bool
  Chdir_tmp_ok :: bool
  WriteFile_src_ok :: bool
  goimports_cmd :: cmd_result
  mod_init_cmd :: cmd_result
  mod_tidy_cmd :: cmd_result
  WriteFile_mod_ok :: bool
  build_cmd :: cmd_result
  Chdir_orig_ok :: bool
  golfing_cmd :: cmd_result

text \<open>
  \<^verbatim>\<open>
  needTidy := false
  for _, v := range p.Imports {
      if strings.Contains(v, "/") {
          needTidy = true
          break
      }
  }
  \<close>
\<close>

definition needTidy :: "Prog \<Rightarrow> bool" where
  "needTidy p = list_ex (\<lambda>v. strings_Contains v ''/'') (Imports p)"

text \<open>
  \<open>Prog.run\<close>: every failing step returns 1, except the writing of go.mod, whose
  failure is only printed; the last step runs the built program \<open>golfing\<close> with
  \<open>p.RawArgs\<close>:
  \<^verbatim>\<open>
  if err := do(filepath.Join(tmpdir, binname), p.RawArgs); err != nil {
      if err != errGolf {
          prelude.Warn("golf: %v", err)
      }
      return 1
  }
  return 0
  \<close>
  The value is the status that \<open>main\<close> passes to \<open>os.Exit\<close>. The deferred removal of
  the temporary directory does not change it.
\<close>

definition run :: "Prog \<Rightarrow> run_env \<Rightarrow> int" where
  "run p env =
     (if \<not> MkdirTemp_ok env then 1
      else if \<not> Abs_ok env then 1
      else if \<not> Getwd_ok env then 1
      else if \<not> Chdir_tmp_ok env then 1
      else if \<not> WriteFile_src_ok env then 1
      else if Goimports p \<and> doQ (goimports_cmd env) \<noteq> None then 1
      else if needTidy p \<and> doQ (mod_init_cmd env) \<noteq> None then 1
      else if needTidy p \<and> doQ (mod_tidy_cmd env) \<noteq> None then 1
      else if do_cmd (build_cmd env) \<noteq> None then 1
      else if \<not> Chdir_orig_ok env then 1
      else if do_cmd (golfing_cmd env) \<noteq> None then 1
      else 0)"

text \<open>
  The steps before the last one all succeed: the program was written, built and is
  about to be run.
\<close>

definition built :: "Prog \<Rightarrow> run_env \<Rightarrow> bool" where
  "built p env =
     (MkdirTemp_ok env \<and> Abs_ok env \<and> Getwd_ok env \<and> Chdir_tmp_ok env
      \<and> WriteFile_src_ok env
      \<and> (if Goimports p then doQ (goimports_cmd env) = None else True)
      \<and> (if needTidy p then doQ (mod_init_cmd env) = None \<and> doQ (mod_tidy_cmd env) = None
         else True)
      \<and> do_cmd (build_cmd env) = None \<and> Chdir_orig_ok env)"

section \<open>Concrete inputs\<close>

text \<open>
  The tokens \<open>-c\<close>, one for every letter \<open>c\<close> of a cluster: how the flags of the cluster
  \<open>-cl\<close> are written one by one.
\<close>

definition separate :: "string \<Rightarrow> string list" where
  "separate cl = map (\<lambda>c. [CHR ''-'', c]) cl"

text \<open>
  A file system on which the input \<open>f\<close> opens and can be created anew, but cannot be
  renamed to its backup name.
\<close>

definition rename_fails :: os_errors where
  "rename_fails =
     \<lparr>Open_err = None, Remove_err = None,
      Rename_err = Some ''rename f nodir/f: no such file or directory'',
      Create_err = None\<rparr>"

text \<open>
  The program record of \<open>golf -e 'os.Exit(2)'\<close>, an environment in which every step
  succeeds and the program exits with status 0, and one in which it exits with status 2
  as the one-liner asks.
\<close>

definition exit2_Prog :: Prog where
  "exit2_Prog =
     \<lparr>RawArgs = [], BeginSrc = [], RawSrc = ''os.Exit(2)'', EndSrc = [],
      Imports = [''fmt'', ''io'', ''os'', ''regexp'', ''strconv'', ''strings''],
      FlgN = False, FlgP = False, FlgL = False, FlgA = False, FlgF = '' '',
      InPlace = False, InPlaceBak = [], Warn_on = False, Goimports = False, Keep = False\<rparr>"

definition succeeded :: cmd_result where
  "succeeded = \<lparr>run_err = None, exit_code = 0\<rparr>"

definition env_ok :: run_env where
  "env_ok =
     \<lparr>MkdirTemp_ok = True, Abs_ok = True, Getwd_ok = True, Chdir_tmp_ok = True,
      WriteFile_src_ok = True, goimports_cmd = succeeded, mod_init_cmd = succeeded,
      mod_tidy_cmd = succeeded, WriteFile_mod_ok = True, build_cmd = succeeded,
      Chdir_orig_ok = True, golfing_cmd = succeeded\<rparr>"

definition env_exit2 :: run_env where
  "env_exit2 = env_ok\<lparr>golfing_cmd := \<lparr>run_err = Some ''exit status 2'', exit_code = 2\<rparr>\<rparr>"

text \<open>
  The flag \<open>-F\<close> is among the flags set on the command line whenever the field separator
  is not the default: what \<open>flag.Visit\<close> relies on.
\<close>

definition F_recorded :: "flags \<Rightarrow> bool" where
  "F_recorded st = (flgF st = '' '' \<or> ''F'' \<in> actual st)"

section \<open>Properties of the prelude\<close>

lemma strings_Contains_single: "strings_Contains s [c] \<longleftrightarrow> c \<in> set s"
  by (induction s) auto

lemma strings_ReplaceAll_single:
  "strings_ReplaceAll s [c] new = concat (map (\<lambda>x. if x = c then new else [x]) s)"
proof (induction s)
  case Nil
  show ?case by (simp add: strings_ReplaceAll.simps)
next
  case (Cons x xs)
  show ?case
  proof (cases "x = c")
    case True
    have "strings_ReplaceAll (x # xs) [c] new = new @ strings_ReplaceAll xs [c] new"
      using True by (subst strings_ReplaceAll.simps) simp
    with Cons True show ?thesis by simp
  next
    case False
    have "strings_ReplaceAll (x # xs) [c] new = x # strings_ReplaceAll xs [c] new"
      using False by (subst strings_ReplaceAll.simps) simp
    with Cons False show ?thesis by simp
  qed
qed

text \<open>
  C9. A pattern without \<open>*\<close> is appended to the original name as a suffix; otherwise
  every \<open>*\<close> of the pattern is replaced by the original name and the other characters
  are kept. \<open>BackupName("f", ".bak") = "f.bak"\<close> and \<open>BackupName("f", "orig_*") = "orig_f"\<close>.
\<close>

theorem BackupName_policy:
  "BackupName orig ext =
     (if CHR ''*'' \<in> set ext
      then concat (map (\<lambda>c. if c = CHR ''*'' then orig else [c]) ext)
      else orig @ ext)
   \<and> BackupName ''f'' ''.bak'' = ''f.bak''
   \<and> BackupName ''f'' ''orig_*'' = ''orig_f''"
  by (simp add: BackupName_def strings_Contains_single strings_ReplaceAll_single)

text \<open>
  C1. \<open>Field(0)\<close> is the fields joined with \<open>OFS\<close>; a positive \<open>n\<close> up to the number of
  fields gives the \<open>n\<close>-th field, counted from 1; a negative \<open>n\<close> down to minus the
  number of fields gives the \<open>-n\<close>-th field from the end, so that on fields that are not
  empty \<open>Field(-1)\<close> is \<open>Field(len)\<close>, the last field; when \<open>|n|\<close> is more than the number
  of fields (also when there is no field) the result is the empty string, with a warning
  exactly when warnings are on; and \<open>Field\<close> returns for every \<open>n\<close>: it never ends the
  program.
\<close>

theorem Field_policy:
  "Field_acc g 0 = Return (strings_Join (Fields g) (OFS g)) []
   \<and> (0 < n \<and> n \<le> int (length (Fields g)) \<longrightarrow>
        Field_acc g n = Return (Fields g ! nat (n - 1)) [])
   \<and> (n < 0 \<and> - n \<le> int (length (Fields g)) \<longrightarrow>
        Field_acc g n = Return (rev (Fields g) ! nat (- n - 1)) [])
   \<and> (Fields g \<noteq> [] \<longrightarrow>
        Field_acc g (- 1) = Field_acc g (int (length (Fields g)))
        \<and> Field_acc g (- 1) = Return (last (Fields g)) [])
   \<and> (\<bar>n\<bar> > int (length (Fields g)) \<longrightarrow>
        Field_acc g n =
          Return [] (if Warnings g then [UndefinedField (Field_idx g n) (Fields g)] else []))
   \<and> (\<exists>v ds. Field_acc g n = Return v ds)"
proof (intro conjI impI)
  show "Field_acc g 0 = Return (strings_Join (Fields g) (OFS g)) []"
    by (simp add: Field_acc_def)
next
  assume "0 < n \<and> n \<le> int (length (Fields g))"
  then show "Field_acc g n = Return (Fields g ! nat (n - 1)) []"
    by (simp add: Field_acc_def Field_idx_def Let_def)
next
  assume a: "n < 0 \<and> - n \<le> int (length (Fields g))"
  then have "nat (- n - 1) < length (Fields g)" by linarith
  then have "rev (Fields g) ! nat (- n - 1) = Fields g ! (length (Fields g) - Suc (nat (- n - 1)))"
    by (rule rev_nth)
  moreover have "length (Fields g) - Suc (nat (- n - 1)) = nat (int (length (Fields g)) + n)"
    using a by linarith
  ultimately show "Field_acc g n = Return (rev (Fields g) ! nat (- n - 1)) []"
    using a by (simp add: Field_acc_def Field_idx_def Let_def)
next
  assume ne: "Fields g \<noteq> []"
  then have len: "0 < length (Fields g)" by simp
  have l: "Field_acc g (- 1) = Return (Fields g ! (length (Fields g) - 1)) []"
    using len by (simp add: Field_acc_def Field_idx_def Let_def nat_diff_distrib')
  have r: "Field_acc g (int (length (Fields g))) = Return (Fields g ! (length (Fields g) - 1)) []"
    using len by (simp add: Field_acc_def Field_idx_def Let_def nat_diff_distrib')
  show "Field_acc g (- 1) = Field_acc g (int (length (Fields g)))"
    using l r by simp
  show "Field_acc g (- 1) = Return (last (Fields g)) []"
    using l ne by (simp add: last_conv_nth)
next
  assume "\<bar>n\<bar> > int (length (Fields g))"
  then show "Field_acc g n =
          Return [] (if Warnings g then [UndefinedField (Field_idx g n) (Fields g)] else [])"
    by (auto simp add: Field_acc_def Field_idx_def Let_def)
next
  show "\<exists>v ds. Field_acc g n = Return v ds"
    by (simp add: Field_acc_def Let_def)
qed

theorem Field_policy_witness:
  "Field_acc abc 0 = Return ''a b c'' []
   \<and> Field_acc abc 2 = Return ''b'' []
   \<and> Field_acc abc (- 2) = Return ''b'' []
   \<and> Field_acc abc (- 1) = Field_acc abc 3
   \<and> Field_acc abc 10 = Return [] [UndefinedField 9 [''a'', ''b'', ''c'']]
   \<and> Field_acc abc (- 10) = Return [] [UndefinedField (- 7) [''a'', ''b'', ''c'']]"
  using Field_policy [of abc 2] Field_policy [of abc "- 2"] Field_policy [of abc 10]
    Field_policy [of abc "- 10"]
  by (simp add: abc_def Field_idx_def)

text \<open>
  The table of \<open>TestField\<close> in prelude_test.go, with warnings off as in the test (a
  \<open>nil\<close> slice is the empty list).
\<close>

lemma TestField_table:
  "Field_acc \<lparr>Fields = [''a'', ''b'', ''c''], OFS = '' '', Warnings = False\<rparr> 0 = Return ''a b c'' []"
  "Field_acc \<lparr>Fields = [''a'', ''b'', ''c''], OFS = '' '', Warnings = False\<rparr> 1 = Return ''a'' []"
  "Field_acc \<lparr>Fields = [''a'', ''b'', ''c''], OFS = '' '', Warnings = False\<rparr> (- 1) = Return ''c'' []"
  "Field_acc \<lparr>Fields = [''a'', ''b'', ''c''], OFS = '' '', Warnings = False\<rparr> 10 = Return [] []"
  "Field_acc \<lparr>Fields = [''a'', ''b'', ''c''], OFS = '' '', Warnings = False\<rparr> (- 10) = Return [] []"
  "Field_acc \<lparr>Fields = [], OFS = '' '', Warnings = False\<rparr> 0 = Return [] []"
  "Field_acc \<lparr>Fields = [], OFS = '' '', Warnings = False\<rparr> 1 = Return [] []"
  "Field_acc \<lparr>Fields = [], OFS = '' '', Warnings = False\<rparr> (- 1) = Return [] []"
  "Field_acc \<lparr>Fields = [], OFS = '' '', Warnings = False\<rparr> 2 = Return [] []"
  "Field_acc \<lparr>Fields = [], OFS = '' '', Warnings = False\<rparr> (- 2) = Return [] []"
  "Field_acc \<lparr>Fields = [[]], OFS = '' '', Warnings = False\<rparr> 0 = Return [] []"
  "Field_acc \<lparr>Fields = [[]], OFS = '' '', Warnings = False\<rparr> 1 = Return [] []"
  "Field_acc \<lparr>Fields = [[]], OFS = '' '', Warnings = False\<rparr> (- 1) = Return [] []"
  "Field_acc \<lparr>Fields = [[]], OFS = '' '', Warnings = False\<rparr> 2 = Return [] []"
  "Field_acc \<lparr>Fields = [[]], OFS = '' '', Warnings = False\<rparr> (- 2) = Return [] []"
  by (simp_all add: Field_acc_def Field_idx_def)

subsection \<open>GAtoi\<close>

lemma Atoi_syntax: "snd (Atoi s) = Some ErrSyntax \<longleftrightarrow> \<not> decimal_syntax s"
  by (cases s) (auto simp: Atoi_def decimal_syntax_def Let_def)





lemma GAtoi_examples:
  "GAtoi abc ''42'' = Return 42 []"
  "GAtoi abc ''-17'' = Return (- 17) []"
  "GAtoi abc ''+5'' = Return 5 []"
  "GAtoi abc [] = Return 0 [AtoiError ErrSyntax []]"
  "GAtoi abc ''-9223372036854775809'' = Return (- 9223372036854775808) [AtoiError ErrRange ''-9223372036854775809'']"
  by (simp_all add: GAtoi_def Atoi_def is_digit_def digits_value_def Let_def abc_def)

subsection \<open>GSplit\<close>











section \<open>Properties of flag processing\<close>

subsection \<open>Clusters of boolean flags\<close>

lemma shortBoolFlags_iff:
  "shortBoolFlags name \<longleftrightarrow>
     name \<in> {''n'', ''l'', ''p'', ''g'', ''a'', ''i'', ''k'', ''w'', ''h''}"
  by (auto simp: shortBoolFlags_def flag_table_def)

lemma longFlags_iff:
  "longFlags name \<longleftrightarrow> name \<in> {''goVer'', ''help'', ''BEGIN'', ''END''}"
  by (auto simp: longFlags_def flag_table_def)

lemma bool_cluster_not_long:
  assumes "\<forall>c \<in> set cl. shortBoolFlags [c]"
  shows "\<not> longFlags cl"
proof
  assume "longFlags cl"
  then consider "cl = ''goVer''" | "cl = ''help''" | "cl = ''BEGIN''" | "cl = ''END''"
    by (auto simp: longFlags_iff)
  then show False
  proof cases
    case 1 with assms have "shortBoolFlags ''o''" by simp
    then show False by (simp add: shortBoolFlags_iff)
  next
    case 2 with assms have "shortBoolFlags ''e''" by simp
    then show False by (simp add: shortBoolFlags_iff)
  next
    case 3 with assms have "shortBoolFlags ''B''" by simp
    then show False by (simp add: shortBoolFlags_iff)
  next
    case 4 with assms have "shortBoolFlags ''E''" by simp
    then show False by (simp add: shortBoolFlags_iff)
  qed
qed

lemma decluster_chars_bool:
  "\<forall>vv \<in> set vvs. shortBoolFlags vv \<Longrightarrow>
   decluster_chars lenv i res vvs = Ok (res @ map (\<lambda>vv. CHR ''-'' # vv) vvs)"
  by (induction vvs arbitrary: i res) simp_all

lemma decluster_loop_cluster:
  assumes "cl \<noteq> []" and "\<forall>c \<in> set cl. shortBoolFlags [c]"
  shows "decluster_loop osArgs i res ((CHR ''-'' # cl) # vs)
         = decluster_loop osArgs (Suc i) (res @ separate cl) vs"
proof -
  have nl: "\<not> longFlags cl" using assms(2) by (rule bool_cluster_not_long)
  have nd: "cl \<noteq> ''-''"
  proof
    assume "cl = ''-''"
    with assms(2) have "shortBoolFlags ''-''" by simp
    then show False by (simp add: shortBoolFlags_iff)
  qed
  have ch: "decluster_chars (int (length (CHR ''-'' # cl))) 0 res (strings_Split cl [])
            = Ok (res @ separate cl)"
    using assms(2) decluster_chars_bool [of "map (\<lambda>c. [c]) cl" _ 0 res]
    by (simp add: strings_Split_def separate_def comp_def)
  show ?thesis using nl nd ch by simp
qed

lemma decluster_loop_separate:
  "\<forall>c \<in> set cl. shortBoolFlags [c] \<Longrightarrow>
   decluster_loop osArgs i res (separate cl @ vs)
   = decluster_loop osArgs (i + length cl) (res @ separate cl) vs"
proof (induction cl arbitrary: i res)
  case Nil
  then show ?case by (simp add: separate_def)
next
  case (Cons c cl)
  have "decluster_loop osArgs i res ((CHR ''-'' # [c]) # separate cl @ vs)
        = decluster_loop osArgs (Suc i) (res @ separate [c]) (separate cl @ vs)"
    using Cons.prems by (intro decluster_loop_cluster) simp_all
  then show ?case using Cons by (simp add: separate_def)
qed

lemma decluster_loop_drop:
  "drop i A = drop j B \<Longrightarrow> decluster_loop A i res vs = decluster_loop B j res vs"
proof (induction vs arbitrary: i j res)
  case Nil
  then show ?case by simp
next
  case (Cons v vs)
  from Cons.prems have "tl (drop i A) = tl (drop j B)" by simp
  then have d: "drop (Suc i) A = drop (Suc j) B" by (simp add: drop_Suc drop_tl)
  have ih: "\<And>r. decluster_loop A (Suc i) r vs = decluster_loop B (Suc j) r vs"
    using Cons.IH [OF d] .
  show ?case using Cons.prems ih by (simp split: step.splits)
qed

lemma decluster_loop_no_dashes:
  "''--'' \<notin> set pre \<Longrightarrow>
   decluster_loop A i res (pre @ rest) =
     (case decluster_loop A i res pre of
        Ok res' \<Rightarrow> decluster_loop A (i + length pre) res' rest
      | Exit n \<Rightarrow> Exit n
      | Panic \<Rightarrow> Panic)"
  by (induction pre arbitrary: i res) (auto split: step.splits)

lemma decluster_loop_args_irrelevant:
  "''--'' \<notin> set pre \<Longrightarrow> decluster_loop A i res pre = decluster_loop B j res pre"
  by (induction pre arbitrary: i j res) (auto split: step.splits)

lemma decluster_loop_after_cluster:
  assumes "post = [] \<or> hd post \<noteq> ''--''"
  shows "decluster_loop (prog # pre @ (CHR ''-'' # cl) # post) (Suc (length pre)) res post
         = decluster_loop (prog # pre @ separate cl @ post) (length pre + length cl) res post"
proof (cases post)
  case Nil
  then show ?thesis by simp
next
  case (Cons p ps)
  let ?A = "prog # pre @ (CHR ''-'' # cl) # p # ps"
  let ?B = "prog # pre @ separate cl @ p # ps"
  from assms Cons have p: "''--'' \<notin> set [p]" by auto
  have one: "decluster_loop ?A (Suc (length pre)) res [p]
             = decluster_loop ?B (length pre + length cl) res [p]"
    using p by (rule decluster_loop_args_irrelevant)
  have dA: "drop (Suc (length pre) + length [p]) ?A = p # ps" by simp
  have dB: "drop (length pre + length cl + length [p]) ?B = p # ps"
    by (simp add: separate_def)
  have rest: "\<And>r. decluster_loop ?A (Suc (length pre) + length [p]) r ps
                  = decluster_loop ?B (length pre + length cl + length [p]) r ps"
    by (rule decluster_loop_drop) (simp only: dA dB)
  have "decluster_loop ?A (Suc (length pre)) res ([p] @ ps)
        = decluster_loop ?B (length pre + length cl) res ([p] @ ps)"
    unfolding decluster_loop_no_dashes [OF p] one
    by (simp only: rest)
  then show ?thesis using Cons by simp
qed

text \<open>
  A cluster \<open>-cl\<close> of one or more single-letter boolean flags is declustered into the
  tokens \<open>-c\<close> of its letters, in order, and gives the same result of \<open>decluster\<close> and
  the same program record (or the same exit) as the command line with these tokens in
  its place, provided that no \<open>--\<close> comes before the cluster and that the argument
  right after it is not \<open>--\<close>.
\<close>

lemma decluster_bool_cluster:
  assumes "cl \<noteq> []"
    and "\<forall>c \<in> set cl. shortBoolFlags [c]"
    and "''--'' \<notin> set pre"
    and "post = [] \<or> hd post \<noteq> ''--''"
  shows "decluster (prog # pre @ (CHR ''-'' # cl) # post)
           = decluster (prog # pre @ separate cl @ post)
         \<and> main_Prog (prog # pre @ (CHR ''-'' # cl) # post)
           = main_Prog (prog # pre @ separate cl @ post)
         \<and> decluster [prog, CHR ''-'' # cl] = Ok (prog # separate cl)"
proof -
  let ?A = "prog # pre @ (CHR ''-'' # cl) # post"
  let ?B = "prog # pre @ separate cl @ post"
  have pre: "decluster_loop ?A 0 [prog] pre = decluster_loop ?B 0 [prog] pre"
    using assms(3) by (rule decluster_loop_args_irrelevant)
  have A: "decluster ?A =
      (case decluster_loop ?A 0 [prog] pre of
         Ok r \<Rightarrow> decluster_loop ?A (Suc (length pre)) (r @ separate cl) post
       | Exit n \<Rightarrow> Exit n | Panic \<Rightarrow> Panic)"
  proof -
    have "decluster ?A = decluster_loop ?A 0 [prog] (pre @ (CHR ''-'' # cl) # post)"
      by (simp add: decluster_def)
    also have "\<dots> =
      (case decluster_loop ?A 0 [prog] pre of
         Ok r \<Rightarrow> decluster_loop ?A (0 + length pre) r ((CHR ''-'' # cl) # post)
       | Exit n \<Rightarrow> Exit n | Panic \<Rightarrow> Panic)"
      using assms(3) by (rule decluster_loop_no_dashes)
    also have "\<dots> =
      (case decluster_loop ?A 0 [prog] pre of
         Ok r \<Rightarrow> decluster_loop ?A (Suc (length pre)) (r @ separate cl) post
       | Exit n \<Rightarrow> Exit n | Panic \<Rightarrow> Panic)"
      by (simp only: decluster_loop_cluster [OF assms(1) assms(2)] add_0)
    finally show ?thesis .
  qed
  have B: "decluster ?B =
      (case decluster_loop ?B 0 [prog] pre of
         Ok r \<Rightarrow> decluster_loop ?B (length pre + length cl) (r @ separate cl) post
       | Exit n \<Rightarrow> Exit n | Panic \<Rightarrow> Panic)"
  proof -
    have "decluster ?B = decluster_loop ?B 0 [prog] (pre @ separate cl @ post)"
      by (simp add: decluster_def)
    also have "\<dots> =
      (case decluster_loop ?B 0 [prog] pre of
         Ok r \<Rightarrow> decluster_loop ?B (0 + length pre) r (separate cl @ post)
       | Exit n \<Rightarrow> Exit n | Panic \<Rightarrow> Panic)"
      using assms(3) by (rule decluster_loop_no_dashes)
    also have "\<dots> =
      (case decluster_loop ?B 0 [prog] pre of
         Ok r \<Rightarrow> decluster_loop ?B (length pre + length cl) (r @ separate cl) post
       | Exit n \<Rightarrow> Exit n | Panic \<Rightarrow> Panic)"
      by (simp only: decluster_loop_separate [OF assms(2)] add_0)
    finally show ?thesis .
  qed
  have eq: "decluster ?A = decluster ?B"
    unfolding A B pre
    by (simp add: decluster_loop_after_cluster [OF assms(4)] split: step.splits)
  have alone: "decluster [prog, CHR ''-'' # cl] = Ok (prog # separate cl)"
    using decluster_loop_cluster [OF assms(1) assms(2), of "[prog, CHR ''-'' # cl]" 0 "[prog]" "[]"]
    by (simp add: decluster_def)
  show ?thesis
    using eq alone by (simp add: main_Prog_def golf_flags_def)
qed

lemma decluster_bool_cluster_example:
  "decluster [''golf'', ''-w'', ''-lan'', ''f1'']
     = decluster [''golf'', ''-w'', ''-l'', ''-a'', ''-n'', ''f1'']
   \<and> main_Prog [''golf'', ''-w'', ''-lan'', ''f1'']
     = main_Prog [''golf'', ''-w'', ''-l'', ''-a'', ''-n'', ''f1'']
   \<and> decluster [''golf'', ''-lan''] = Ok [''golf'', ''-l'', ''-a'', ''-n'']"
  using decluster_bool_cluster [of "''lan''" "[''-w'']" "[''f1'']" "''golf''"]
  by (simp add: shortBoolFlags_iff separate_def)

subsection \<open>The arguments after \<open>--\<close>\<close>

text \<open>
  C4. At \<open>--\<close> the loop appends \<open>os.Args[i:]\<close>, where \<open>i\<close> counts from \<open>os.Args[1:]\<close>:
  the slice starts one argument before \<open>--\<close>. That argument is in the result twice
  (the program name, when \<open>--\<close> comes first), so the result is not the declustered
  flags followed by \<open>--\<close> and the arguments after it. On \<open>golf -e code -- -x\<close> the
  second \<open>code\<close> ends the flags, and the positional arguments are \<open>code\<close>, \<open>--\<close>, \<open>-x\<close>.
\<close>

theorem decluster_double_dash:
  "decluster [''golf'', ''-e'', ''code'', ''--'', ''-x'']
     = Ok [''golf'', ''-e'', ''code'', ''code'', ''--'', ''-x'']
   \<and> map_step RawArgs (main_Prog [''golf'', ''-e'', ''code'', ''--'', ''-x''])
     = Ok [''code'', ''--'', ''-x'']
   \<and> decluster [''golf'', ''-n'', ''--'', ''f1''] = Ok [''golf'', ''-n'', ''-n'', ''--'', ''f1'']
   \<and> decluster [''golf'', ''--'', ''f1''] = Ok [''golf'', ''golf'', ''--'', ''f1'']
   \<and> map_step RawArgs (main_Prog [''golf'', ''--'', ''f1'']) = Ok [''golf'', ''--'', ''f1'']"
  by code_simp

text \<open>
  C5. A cluster of boolean flags does not always act as its flags given one by one:
  right before \<open>--\<close> the cluster \<open>-ln\<close> is declustered and then copied once more as it
  stands, \<open>flag.Parse\<close> finds the undefined flag \<open>-ln\<close> and the command exits with
  status 2, while \<open>-l -n\<close> in its place is accepted, with both flags set and \<open>x\<close> as
  the positional argument.
\<close>

theorem cluster_before_double_dash:
  "decluster [''golf'', ''-ln'', ''--'', ''x'']
     = Ok [''golf'', ''-l'', ''-n'', ''-ln'', ''--'', ''x'']
   \<and> main_Prog [''golf'', ''-ln'', ''--'', ''x''] = Exit 2
   \<and> decluster [''golf'', ''-l'', ''-n'', ''--'', ''x'']
     = Ok [''golf'', ''-l'', ''-n'', ''-n'', ''--'', ''x'']
   \<and> map_step (\<lambda>p. (FlgL p, FlgN p, RawArgs p)) (main_Prog [''golf'', ''-l'', ''-n'', ''--'', ''x''])
     = Ok (True, True, [''x''])"
  by code_simp

subsection \<open>An empty argument\<close>

text \<open>
  C10. \<open>decluster\<close> reads \<open>v[0]\<close> of every argument before it looks at anything else:
  on an empty argument this is an index out of range and the command panics. The
  package documentation's own example \<open>golf -pe '' FILE1 FILE2 FILE3\<close> has one.
\<close>

theorem decluster_empty_argument:
  "decluster [''golf'', ''-pe'', [], ''FILE1''] = Panic
   \<and> main_Prog [''golf'', ''-pe'', [], ''FILE1''] = Panic"
  by (simp add: main_Prog_def golf_flags_def decluster_def longFlags_iff shortBoolFlags_iff
      strings_Split_def)

lemma decluster_loop_empty_panics:
  "''--'' \<notin> set pre \<Longrightarrow>
   decluster_loop osArgs i res (pre @ [] # post) \<noteq> Ok res'"
  by (induction pre arbitrary: i res) (auto split: step.splits)

subsection \<open>The implications between flags\<close>

lemma flag_Set_flgF:
  "flag_Set name v st = Some st' \<Longrightarrow>
   actual st' = actual st \<and> (name = ''F'' \<or> flgF st' = flgF st)"
  unfolding flag_Set_def
  by (elim disjE | split if_splits | force)+

lemma set_flag_F_recorded:
  "set_flag name v st rest = Seen st' rest' \<Longrightarrow> F_recorded st \<Longrightarrow> F_recorded st'"
  by (auto simp: set_flag_def F_recorded_def split: option.splits dest!: flag_Set_flgF)

lemma parseOne_F_recorded:
  "parseOne st args = Seen st' rest \<Longrightarrow> F_recorded st \<Longrightarrow> F_recorded st'"
  by (auto simp: parseOne_def Let_def
      split: list.splits if_splits prod.splits option.splits flag_kind.splits
      dest: set_flag_F_recorded)

lemma Parse_F_recorded:
  "Parse st args = Ok (st', rest) \<Longrightarrow> F_recorded st \<Longrightarrow> F_recorded st'"
proof (induction st args rule: Parse.induct)
  case (1 st args)
  show ?case
  proof (cases "parseOne st args")
    case (Seen st1 rest1)
    moreover from Seen "1.prems"(1) have "Parse st1 rest1 = Ok (st', rest)"
      by (subst (asm) Parse.simps) simp
    moreover from Seen "1.prems"(2) have "F_recorded st1" by (rule parseOne_F_recorded)
    ultimately show ?thesis using "1.IH" by blast
  next
    case (Stop rest1)
    with "1.prems" show ?thesis by (subst (asm) Parse.simps) simp
  next
    case Failed
    with "1.prems" show ?thesis by (subst (asm) Parse.simps) simp
  qed
qed

lemma golf_flags_F_recorded:
  "golf_flags osArgs = Ok (st, rest) \<Longrightarrow> F_recorded st"
proof -
  assume a: "golf_flags osArgs = Ok (st, rest)"
  then obtain args where "Parse flags0 (tl args) = Ok (st, rest)"
    by (auto simp: golf_flags_def split: step.splits)
  moreover have "F_recorded flags0" by (simp add: F_recorded_def flags0_def)
  ultimately show ?thesis by (rule Parse_F_recorded)
qed

text \<open>
  C8. Whenever \<open>main\<close> gets as far as the program record, the record satisfies the four
  implications: a field separator other than the default implies auto-split, auto-split
  implies line mode, pipe mode implies line mode, and a backup pattern that is not empty
  implies in-place mode.
\<close>

theorem main_Prog_implications:
  assumes "main_Prog osArgs = Ok p"
  shows "(FlgF p \<noteq> '' '' \<longrightarrow> FlgA p) \<and> (FlgA p \<longrightarrow> FlgN p) \<and> (FlgP p \<longrightarrow> FlgN p)
         \<and> (InPlaceBak p \<noteq> [] \<longrightarrow> InPlace p)"
proof -
  from assms obtain st rest where g: "golf_flags osArgs = Ok (st, rest)"
    and p: "p = make_Prog (implications st) rest"
    by (auto simp: main_Prog_def split: step.splits prod.splits if_splits)
  from g have "F_recorded st" by (rule golf_flags_F_recorded)
  then show ?thesis unfolding p
    by (auto simp: make_Prog_def implications_def F_recorded_def Let_def)
qed

lemma main_Prog_example:
  "main_Prog [''golf'', ''-pF'', '':'', ''-I'', ''.bak'', ''-e'', ''Print(Field(1))'', ''f1'']
   = Ok \<lparr>RawArgs = [''f1''], BeginSrc = [], RawSrc = ''Print(Field(1))'', EndSrc = [],
         Imports = [''bufio'', ''fmt'', ''io'', ''os'', ''regexp'', ''strconv'', ''strings''],
         FlgN = True, FlgP = True, FlgL = False, FlgA = True, FlgF = '':'',
         InPlace = True, InPlaceBak = ''.bak'', Warn_on = False, Goimports = False,
         Keep = False\<rparr>"
  by code_simp

theorem main_Prog_implications_witness:
  "main_Prog [''golf'', ''-pF'', '':'', ''-I'', ''.bak'', ''-e'', ''Print(Field(1))'', ''f1'']
     = Ok \<lparr>RawArgs = [''f1''], BeginSrc = [], RawSrc = ''Print(Field(1))'', EndSrc = [],
         Imports = [''bufio'', ''fmt'', ''io'', ''os'', ''regexp'', ''strconv'', ''strings''],
         FlgN = True, FlgP = True, FlgL = False, FlgA = True, FlgF = '':'',
         InPlace = True, InPlaceBak = ''.bak'', Warn_on = False, Goimports = False,
         Keep = False\<rparr>"
  using main_Prog_implications [OF main_Prog_example] main_Prog_example
  by simp

section \<open>Properties of the scaffold\<close>

text \<open>
  C2. A failure of \<open>os.Rename\<close> is not fatal: with a backup pattern, an input that
  opens, cannot be renamed and can be created, the scaffold does not call \<open>Die\<close>. It
  goes on to \<open>os.Create\<close>, which truncates the input that was to be backed up, and to
  reading the file.
\<close>

theorem open_input_rename_fails:
  "Rename_err rename_fails \<noteq> None
   \<and> open_input rename_fails \<lparr>GolfInPlace = True, GolfInPlaceBak = ''nodir/*'', CurOut = Stdout\<rparr> ''f''
     = Reading (OutFile ''f'') [SysOpen ''f'', SysRename ''f'' ''nodir/f'', SysCreate ''f'']"
  by (simp add: open_input_def create_output_def rename_fails_def BackupName_def
      strings_ReplaceAll.simps Let_def)

text \<open>
  The other failures at a file boundary (open, remove, create) are fatal, and the
  result of \<open>os.Rename\<close> changes nothing.
\<close>

lemma open_input_other_failures:
  "Open_err os \<noteq> None \<Longrightarrow> \<exists>calls. open_input os g f = Died calls"
  "Open_err os = None \<Longrightarrow> GolfInPlace g \<Longrightarrow> GolfInPlaceBak g = [] \<Longrightarrow> Remove_err os \<noteq> None \<Longrightarrow>
     \<exists>calls. open_input os g f = Died calls"
  "Open_err os = None \<Longrightarrow> GolfInPlace g \<Longrightarrow> GolfInPlaceBak g = [] \<Longrightarrow> Remove_err os = None \<Longrightarrow>
     Create_err os \<noteq> None \<Longrightarrow> \<exists>calls. open_input os g f = Died calls"
  "Open_err os = None \<Longrightarrow> GolfInPlace g \<Longrightarrow> GolfInPlaceBak g \<noteq> [] \<Longrightarrow>
     Create_err os \<noteq> None \<Longrightarrow> \<exists>calls. open_input os g f = Died calls"
  by (auto simp: open_input_def create_output_def Let_def)

lemma open_input_rename_ignored:
  "open_input (os\<lparr>Rename_err := e\<rparr>) g f = open_input os g f"
  by (simp add: open_input_def create_output_def Let_def)

section \<open>Properties of the driver\<close>

lemma main_Prog_exit2:
  "main_Prog [''golf'', ''-e'', ''os.Exit(2)''] = Ok exit2_Prog"
  by code_simp

lemma run_zero_or_one: "run p env = 0 \<or> run p env = 1"
  by (simp add: run_def)

text \<open>
  C3 (as amended). When every step before the last one succeeds, \<open>run\<close> returns 0
  if the generated program ran without error and exited with status 0, and 1
  otherwise: a failure of the program is reported as status 1, whatever its own status.
\<close>

theorem run_exit_status:
  assumes "built p env"
  shows "run p env =
           (if run_err (golfing_cmd env) = None \<and> exit_code (golfing_cmd env) = 0 then 0 else 1)"
  using assms
  by (auto simp: run_def built_def do_cmd_def split: if_splits option.splits)

lemma built_env_ok: "built exit2_Prog env_ok \<and> built exit2_Prog env_exit2"
  by (simp add: built_def env_ok_def env_exit2_def exit2_Prog_def succeeded_def do_cmd_def
      doQ_def needTidy_def)

theorem run_exit_status_witness:
  "built exit2_Prog env_ok \<and> run exit2_Prog env_ok = 0"
  using run_exit_status [of exit2_Prog env_ok] built_env_ok
  by (simp add: env_ok_def succeeded_def)

text \<open>
  C3 as stated fails for a program that exits with status 2: \<open>run\<close> returns 1.
\<close>

theorem run_exit2_counterexample:
  "built exit2_Prog env_exit2
   \<and> exit_code (golfing_cmd env_exit2) = 2
   \<and> run exit2_Prog env_exit2 = 1"
  by (simp add: built_def run_def env_ok_def env_exit2_def exit2_Prog_def succeeded_def
      do_cmd_def doQ_def needTidy_def)

end
